theory Spec2Isabelle
  imports Main "HOL-Library.Word" "HOL-Library.Sublist"
begin

section \<open>JavaScript strings and thrown values\<close>

text \<open>
  A JavaScript string is a finite sequence of 16-bit code units. Literals of the source
  are ASCII, so they are written as HOL strings and widened by \<open>lit\<close>.
\<close>

type_synonym jsstring = "16 word list"

definition lit :: "string \<Rightarrow> jsstring" where
  "lit s = map (\<lambda>c. word_of_nat (of_char c)) s"

text \<open>A value thrown by a JavaScript function; the message is all that is kept of it.\<close>

datatype js_exception = Thrown jsstring

section \<open>The resolver\<close>

text \<open>
  \<open>validator.isEmail\<close> is a third-party routine and not part of the repository: it is a
  parameter of the model. A call either throws or returns a boolean.
\<close>

type_synonym checker = "jsstring \<Rightarrow> js_exception + bool"

text \<open>The second argument of a resolver: the object \<open>{ email }\<close> built from the query.\<close>

record query_args =
  email :: jsstring

text \<open>
  \<open>resolvers.Query.validateEmail\<close> of \<open>server.js\<close>:
  \<^verbatim>\<open>(_, { email }) => validator.isEmail(email) ? `The email '${email}' is valid.`
                                                 : `The email '${email}' is invalid.`\<close>
  The parent object is ignored. Nothing is caught, so what the checker throws leaves the
  resolver.
\<close>

definition validateEmail :: "checker \<Rightarrow> 'p \<Rightarrow> query_args \<Rightarrow> js_exception + jsstring" where
  "validateEmail isEmail parent args =
     (case isEmail (email args) of
        Inl exn \<Rightarrow> Inl exn
      | Inr ok \<Rightarrow>
          Inr (if ok then lit ''The email '' @ [0x27] @ email args @ [0x27] @ lit '' is valid.''
               else lit ''The email '' @ [0x27] @ email args @ [0x27] @ lit '' is invalid.''))"

text \<open>The resolver of the second source file (\<open>unnamed/part_000\<close>), translated on its own.\<close>

definition validateEmail_part000 ::
  "checker \<Rightarrow> 'p \<Rightarrow> query_args \<Rightarrow> js_exception + jsstring" where
  "validateEmail_part000 isEmail parent args =
     (case isEmail (email args) of
        Inl exn \<Rightarrow> Inl exn
      | Inr ok \<Rightarrow>
          Inr (if ok then lit ''The email '' @ [0x27] @ email args @ [0x27] @ lit '' is valid.''
               else lit ''The email '' @ [0x27] @ email args @ [0x27] @ lit '' is invalid.''))"

text \<open>
  The same body with the effects of the call written out. \<open>'st\<close> stands for the state of
  the running process, everything a later call could observe. The checker is foreign
  code: it is given the state and hands back a state, so it may read and change it. The
  body of the resolver reads its argument and \<open>validator\<close> only and assigns to nothing:
  the state it leaves is the state the checker left.
\<close>

type_synonym 'st stateful_checker = "'st \<Rightarrow> jsstring \<Rightarrow> (js_exception + bool) \<times> 'st"

definition validateEmail_call ::
  "'st stateful_checker \<Rightarrow> 'st \<Rightarrow> query_args \<Rightarrow> (js_exception + jsstring) \<times> 'st" where
  "validateEmail_call isEmail st args =
     (let (verdict, st') = isEmail st (email args)
      in (case verdict of
            Inl exn \<Rightarrow> Inl exn
          | Inr ok \<Rightarrow>
              Inr (if ok
                   then lit ''The email '' @ [0x27] @ email args @ [0x27] @ lit '' is valid.''
                   else lit ''The email '' @ [0x27] @ email args @ [0x27] @ lit '' is invalid.''),
          st'))"

text \<open>A sequence of calls in one process: each call starts in the state the last one left.\<close>

fun resolver_calls ::
  "'st stateful_checker \<Rightarrow> 'st \<Rightarrow> query_args list \<Rightarrow> (js_exception + jsstring) list \<times> 'st"
  where
  "resolver_calls isEmail st [] = ([], st)"
| "resolver_calls isEmail st (a # as) =
     (let (r, st') = validateEmail_call isEmail st a;
          (rs, st'') = resolver_calls isEmail st' as
      in (r # rs, st''))"

section \<open>Requests, responses and the Express stack\<close>

datatype http_method = GET | HEAD | POST | OtherMethod jsstring

text \<open>
  An incoming request: method, pathname and query string of the URL, the headers under
  their lower-cased names (as Node hands them over) and the body.
\<close>

record request =
  req_method :: http_method
  path :: jsstring
  query :: jsstring
  req_headers :: "jsstring \<rightharpoonup> jsstring"
  req_body :: jsstring

text \<open>
  The response object \<open>res\<close> while it is being built and once it is sent: the status
  code, the headers set with \<open>setHeader\<close> (Node keys them by lower-cased name) and the
  body handed to \<open>res.end\<close>. Headers that Node adds while writing (\<open>Date\<close>,
  \<open>Connection\<close>) are outside the model.
\<close>

record response =
  status :: nat
  headers :: "jsstring \<rightharpoonup> jsstring"
  body :: jsstring

definition ascii_lower :: "16 word \<Rightarrow> 16 word" where
  "ascii_lower c = (if 0x41 \<le> c \<and> c \<le> 0x5A then c + 0x20 else c)"

definition lower :: "jsstring \<Rightarrow> jsstring" where
  "lower s = map ascii_lower s"

definition setHeader :: "jsstring \<Rightarrow> jsstring \<Rightarrow> response \<Rightarrow> response" where
  "setHeader name v res = res\<lparr>headers := (headers res)(lower name \<mapsto> v)\<rparr>"

definition getHeader :: "jsstring \<Rightarrow> response \<Rightarrow> jsstring option" where
  "getHeader name res = headers res (lower name)"

definition removeHeader :: "jsstring \<Rightarrow> response \<Rightarrow> response" where
  "removeHeader name res = res\<lparr>headers := (headers res)(lower name := None)\<rparr>"

text \<open>
  What a middleware \<open>(req, res, next)\<close> does with a request: it calls \<open>next()\<close> and leaves
  \<open>res\<close> as given here, calls \<open>next(err)\<close>, or ends the response.
\<close>

datatype outcome = Next response | NextErr js_exception response | Sent response

type_synonym middleware = "request \<Rightarrow> response \<Rightarrow> outcome"

text \<open>The executable schema: the type definitions and the resolver of the one query field.\<close>

record gql_schema =
  typeDefs :: jsstring
  resolve_validateEmail :: "unit \<Rightarrow> query_args \<Rightarrow> js_exception + jsstring"

text \<open>
  Everything the two source files take from outside themselves (third-party packages
  and the schema file). None of it is defined in the two files, so each is a parameter:
  \<^item> \<open>lib_isEmail\<close>: \<open>validator.isEmail\<close>;
  \<^item> \<open>schema_text\<close>: the text of \<open>schema.graphql\<close>, read by \<open>loadSchemaSync\<close>;
  \<^item> \<open>lib_static\<close>: the middleware \<open>express.static(path.join(__dirname, 'views'))\<close>;
  \<^item> \<open>lib_createHandler\<close>: \<open>createHandler\<close> of graphql-http, as a function of the
    schema; the middleware it returns is taken as a function of the request as Express
    received it (Express trims the mount path from \<open>req.url\<close> before the call, which is
    itself a function of that request);
  \<^item> \<open>lib_setCharset\<close>, \<open>lib_contentLength\<close>, \<open>lib_etag\<close>: the helpers of
    \<open>res.send\<close> that rewrite a Content-Type, print the byte length of the body and
    compute its entity tag;
  \<^item> \<open>lib_fresh\<close>: the getter \<open>req.fresh\<close>, which compares the validators of a
    conditional request with the response built so far;
  \<^item> \<open>lib_final\<close>: what Express answers once no layer has ended the response (the 404
    page, the reply to OPTIONS, the error page after \<open>next(err)\<close>).
\<close>

record env =
  lib_isEmail :: checker
  schema_text :: jsstring
  lib_static :: middleware
  lib_createHandler :: "gql_schema \<Rightarrow> middleware"
  lib_setCharset :: "jsstring \<Rightarrow> jsstring"
  lib_contentLength :: "jsstring \<Rightarrow> jsstring"
  lib_etag :: "jsstring \<Rightarrow> jsstring"
  lib_fresh :: "request \<Rightarrow> response \<Rightarrow> bool"
  lib_final :: "request \<Rightarrow> response \<Rightarrow> js_exception option \<Rightarrow> response"

text \<open>
  \<open>res.send(chunk)\<close> of Express for a string \<open>chunk\<close>, in the steps of
  \<open>lib/response.js\<close>. First the Content-Type: a missing (or empty) one becomes
  \<open>text/html; charset=utf-8\<close>, a present one gets its charset set.
\<close>

definition send_type :: "env \<Rightarrow> response \<Rightarrow> response" where
  "send_type e res =
     (case getHeader (lit ''Content-Type'') res of
        None \<Rightarrow> setHeader (lit ''Content-Type'') (lit ''text/html; charset=utf-8'') res
      | Some t \<Rightarrow>
          if t = [] then setHeader (lit ''Content-Type'') (lit ''text/html; charset=utf-8'') res
          else setHeader (lit ''Content-Type'') (lib_setCharset e t) res)"

text \<open>Then Content-Length is set, and an ETag is generated unless one is present.\<close>

definition send_length :: "env \<Rightarrow> jsstring \<Rightarrow> response \<Rightarrow> response" where
  "send_length e chunk res =
     (let generateETag = (case getHeader (lit ''ETag'') res of
                            None \<Rightarrow> True | Some t \<Rightarrow> t = []);
          res' = setHeader (lit ''Content-Length'') (lib_contentLength e chunk) res
      in if generateETag \<and> lib_etag e chunk \<noteq> []
         then setHeader (lit ''ETag'') (lib_etag e chunk) res' else res')"

text \<open>A fresh conditional request turns the status into 304.\<close>

definition send_fresh :: "env \<Rightarrow> request \<Rightarrow> response \<Rightarrow> response" where
  "send_fresh e req res = (if lib_fresh e req res then res\<lparr>status := 304\<rparr> else res)"

text \<open>
  For 204 and 304 the content headers are removed and the body is dropped; for 205 the
  length is set to 0 and the body is dropped. The result is the response and the chunk
  that is left to send.
\<close>

definition send_strip :: "response \<Rightarrow> jsstring \<Rightarrow> response \<times> jsstring" where
  "send_strip res chunk =
     (let strip = (status res = 204 \<or> status res = 304);
          res' = (if strip then
                    removeHeader (lit ''Transfer-Encoding'')
                      (removeHeader (lit ''Content-Length'')
                        (removeHeader (lit ''Content-Type'') res))
                  else res)
      in if status res' = 205 then
           (removeHeader (lit ''Transfer-Encoding'')
              (setHeader (lit ''Content-Length'') (lit ''0'') res'), [])
         else (res', if strip then [] else chunk))"

text \<open>Last the response is ended: with the chunk, or with nothing for a HEAD request.\<close>

definition res_send :: "env \<Rightarrow> request \<Rightarrow> response \<Rightarrow> jsstring \<Rightarrow> response" where
  "res_send e req res chunk =
     (let (res', chunk') =
            send_strip (send_fresh e req (send_length e chunk (send_type e res))) chunk
      in res'\<lparr>body := (if req_method req = HEAD then [] else chunk')\<rparr>)"

text \<open>
  The layers of an Express application, in the order they were registered:
  \<open>app.use(h)\<close>, \<open>app.use(p, h)\<close> and \<open>app.get(p, h)\<close>.
\<close>

datatype layer = Use middleware | UseAt jsstring middleware | GetRoute jsstring middleware

type_synonym app = "layer list"

text \<open>
  \<open>express()\<close>: an application without layers of its own. The two layers Express
  installs itself (query parsing, and the one that sets \<open>X-Powered-By\<close>) are part of
  \<open>request\<close> and of \<open>fresh_response\<close> below.
\<close>

definition express :: app where
  "express = []"

definition app_use :: "middleware \<Rightarrow> app \<Rightarrow> app" where
  "app_use h a = a @ [Use h]"

definition app_use_at :: "jsstring \<Rightarrow> middleware \<Rightarrow> app \<Rightarrow> app" where
  "app_use_at p h a = a @ [UseAt p h]"

definition app_get :: "jsstring \<Rightarrow> middleware \<Rightarrow> app \<Rightarrow> app" where
  "app_get p h a = a @ [GetRoute p h]"

text \<open>
  Express matches the pathname without regard to case and lets one trailing slash pass.
  A mount path \<open>p\<close> (without trailing slash) matches \<open>p\<close> itself and everything below
  \<open>p/\<close>; a route path matches \<open>p\<close> and \<open>p/\<close> only, and \<open>app.get\<close> serves GET and HEAD.
\<close>

fun layer_matches :: "layer \<Rightarrow> request \<Rightarrow> bool" where
  "layer_matches (Use h) req = True"
| "layer_matches (UseAt p h) req =
     (lower (path req) = lower p \<or> prefix (lower p @ lit ''/'') (lower (path req)))"
| "layer_matches (GetRoute p h) req =
     ((req_method req = GET \<or> req_method req = HEAD) \<and>
      (lower (path req) = lower p \<or> lower (path req) = lower p @ lit ''/''))"

fun layer_handler :: "layer \<Rightarrow> middleware" where
  "layer_handler (Use h) = h"
| "layer_handler (UseAt p h) = h"
| "layer_handler (GetRoute p h) = h"

text \<open>
  The router walks the stack: a matching layer runs; \<open>next()\<close> moves on with the response
  object as the layer left it, \<open>next(err)\<close> skips the remaining layers (none of them is an
  error handler), and a layer that ends the response stops the walk.
\<close>

fun dispatch :: "app \<Rightarrow> request \<Rightarrow> response \<Rightarrow> outcome" where
  "dispatch [] req res = Next res"
| "dispatch (l # ls) req res =
     (if layer_matches l req then
        (case layer_handler l req res of
           Next res' \<Rightarrow> dispatch ls req res'
         | NextErr exn res' \<Rightarrow> NextErr exn res'
         | Sent res' \<Rightarrow> Sent res')
      else dispatch ls req res)"

text \<open>The response object as Express hands it to the first layer.\<close>

definition fresh_response :: response where
  "fresh_response =
     \<lparr>status = 200, headers = [lit ''x-powered-by'' \<mapsto> lit ''Express''], body = []\<rparr>"

text \<open>
  Handling one request. The application is handed back with the response: no handler of
  the source registers a layer or assigns to a module-level binding.
\<close>

definition handle :: "env \<Rightarrow> app \<Rightarrow> request \<Rightarrow> response \<times> app" where
  "handle e a req =
     (case dispatch a req fresh_response of
        Sent res \<Rightarrow> (res, a)
      | Next res \<Rightarrow> (lib_final e req res None, a)
      | NextErr exn res \<Rightarrow> (lib_final e req res (Some exn), a))"

section \<open>The two applications\<close>

text \<open>\<open>makeExecutableSchema({ typeDefs, resolvers })\<close> in \<open>server.js\<close> and in \<open>part_000\<close>.\<close>

definition schema :: "env \<Rightarrow> gql_schema" where
  "schema e =
     \<lparr>typeDefs = schema_text e, resolve_validateEmail = validateEmail (lib_isEmail e)\<rparr>"

definition schema_part000 :: "env \<Rightarrow> gql_schema" where
  "schema_part000 e =
     \<lparr>typeDefs = schema_text e,
      resolve_validateEmail = validateEmail_part000 (lib_isEmail e)\<rparr>"

text \<open>
  \<open>addCacheHeaders\<close> (\<open>part_000\<close> only):
  \<^verbatim>\<open>res.setHeader('Cache-Control', 'no-store, no-cache, must-revalidate, proxy-revalidate'); next();\<close>
\<close>

definition addCacheHeaders :: middleware where
  "addCacheHeaders req res =
     Next (setHeader (lit ''Cache-Control'')
             (lit ''no-store, no-cache, must-revalidate, proxy-revalidate'') res)"

text \<open>
  \<open>setupGraphQLEndpoint\<close>: \<open>app.use('/graphql', createHandler({ schema, graphiql: false }))\<close>.
  The function is the same text in both files; the schema it closes over is an argument.
\<close>

definition setupGraphQLEndpoint :: "env \<Rightarrow> gql_schema \<Rightarrow> app \<Rightarrow> app" where
  "setupGraphQLEndpoint e sch a = app_use_at (lit ''/graphql'') (lib_createHandler e sch) a"

text \<open>
  The page that \<open>setupGraphiQL\<close> sends: the template literal of the source, the same
  text in both files, cut in three at the element the explorer is mounted on.
\<close>

definition page_before_mount :: jsstring where
  "page_before_mount =
     lit (''\<newline>'' @
        ''      <!DOCTYPE html>\<newline>'' @
        ''      <html>\<newline>'' @
        ''        <head>\<newline>'' @
        ''          <title>GraphiQL</title>\<newline>'' @
        ''          <script src=\"../react.development.js\"></script>\<newline>'' @
        ''          <script src=\"../react-dom.development.js\"></script>\<newline>'' @
        ''          <script src=\"../graphiql.min.js\"></script>\<newline>'' @
        ''          <link rel=\"stylesheet\" href=\"../graphiql.min.css\" />\<newline>'' @
        ''        </head>\<newline>'' @
        ''        <body style=\"margin: 0;\">\<newline>'' @
        ''          '')"

definition mount_point :: jsstring where
  "mount_point = lit ''<div id=\"graphiql\" style=\"height: 100vh;\"></div>''"

definition page_after_mount :: jsstring where
  "page_after_mount =
     lit (''\<newline>'' @
        ''          <script>\<newline>'' @
        ''            const graphQLFetcher = (graphQLParams) => {\<newline>'' @
        ''              return fetch('/graphql', {\<newline>'' @
        ''                method: 'POST',\<newline>'' @
        ''                headers: { 'Content-Type': 'application/json' },\<newline>'' @
        ''                body: JSON.stringify(graphQLParams),\<newline>'' @
        ''              })\<newline>'' @
        ''              .then((response) => response.json())\<newline>'' @
        ''              .catch((error) => error);\<newline>'' @
        ''            };\<newline>'' @
        ''\<newline>'' @
        ''            ReactDOM.render(\<newline>'' @
        ''              React.createElement(GraphiQL, { fetcher: graphQLFetcher }),\<newline>'' @
        ''              document.getElementById('graphiql')\<newline>'' @
        ''            );\<newline>'' @
        ''          </script>\<newline>'' @
        ''        </body>\<newline>'' @
        ''      </html>\<newline>'' @
        ''    '')"

definition graphiql_page :: jsstring where
  "graphiql_page = page_before_mount @ mount_point @ page_after_mount"

text \<open>\<open>setupGraphiQL\<close>: \<open>app.get('/graphiql', (req, res) => { res.send(`...`) })\<close>.\<close>

definition graphiql_route :: "env \<Rightarrow> middleware" where
  "graphiql_route e req res = Sent (res_send e req res graphiql_page)"

definition setupGraphiQL :: "env \<Rightarrow> app \<Rightarrow> app" where
  "setupGraphiQL e a = app_get (lit ''/graphiql'') (graphiql_route e) a"

text \<open>
  The module-level \<open>app\<close> of \<open>server.js\<close> once its top-level statements have run:
  \<open>express()\<close>, the static middleware, the GraphQL endpoint, the explorer page.
  (\<open>app.listen\<close> and the start-up log lines are not modelled.)
\<close>

definition server_js :: "env \<Rightarrow> app" where
  "server_js e =
     setupGraphiQL e (setupGraphQLEndpoint e (schema e) (app_use (lib_static e) express))"

text \<open>
  The module-level \<open>app\<close> of \<open>part_000\<close> once its top-level statements have run:
  \<open>express()\<close>, the static middleware, then \<open>app.use(addCacheHeaders)\<close>, the GraphQL
  endpoint, the explorer page.
\<close>

definition part_000 :: "env \<Rightarrow> app" where
  "part_000 e =
     setupGraphiQL e
       (setupGraphQLEndpoint e (schema_part000 e)
         (app_use addCacheHeaders (app_use (lib_static e) express)))"

section \<open>Sample instances of the parameters\<close>

text \<open>
  Concrete values for the parameters, used where a statement is evaluated at an explicit
  input. \<open>at_sign_checker\<close> accepts the strings that contain \<open>@\<close>.
\<close>

definition at_sign_checker :: checker where
  "at_sign_checker s = Inr (0x40 \<in> set s)"

text \<open>
  \<open>validator.isEmail\<close> measures the byte length of the parts of the address with
  \<open>encodeURI\<close>, which throws \<open>URIError: URI malformed\<close> on a string with a surrogate
  code unit that has no partner. \<open>lone_surrogate\<close> finds such a code unit, and
  \<open>surrogate_checker\<close> throws where there is one. It agrees with \<open>validator.isEmail\<close>
  at the inputs it is used at.
\<close>

fun lone_surrogate :: "jsstring \<Rightarrow> bool" where
  "lone_surrogate [] = False"
| "lone_surrogate [c] = (0xD800 \<le> c \<and> c \<le> 0xDFFF)"
| "lone_surrogate (c # d # cs) =
     (if 0xD800 \<le> c \<and> c \<le> 0xDBFF then
        (if 0xDC00 \<le> d \<and> d \<le> 0xDFFF then lone_surrogate cs else True)
      else if 0xDC00 \<le> c \<and> c \<le> 0xDFFF then True
      else lone_surrogate (d # cs))"

definition surrogate_checker :: checker where
  "surrogate_checker s =
     (if lone_surrogate s then Inl (Thrown (lit ''URI malformed''))
      else Inr (0x40 \<in> set s))"

text \<open>
  A checker with a state of its own, which is not \<open>validator.isEmail\<close>: it answers with
  the flag it finds and flips it.
\<close>

definition flipping_checker :: "bool stateful_checker" where
  "flipping_checker st s = (Inr st, \<not> st)"

text \<open>
  A static middleware over a directory given as a map from pathname to file content. It
  does what serve-static does by default as far as this development looks: only GET and
  HEAD are served, a missing file passes the request on with \<open>res\<close> untouched, and a
  file is sent with \<open>Cache-Control: public, max-age=0\<close> unless that header is already
  set. The other headers it adds are left out.
\<close>

definition static_files :: "(jsstring \<rightharpoonup> jsstring) \<Rightarrow> middleware" where
  "static_files dir req res =
     (if req_method req = GET \<or> req_method req = HEAD then
        (case dir (path req) of
           None \<Rightarrow> Next res
         | Some file \<Rightarrow>
             Sent ((case getHeader (lit ''Cache-Control'') res of
                      None \<Rightarrow> setHeader (lit ''Cache-Control'') (lit ''public, max-age=0'') res
                    | Some c \<Rightarrow> res)
                   \<lparr>status := 200, body := (if req_method req = HEAD then [] else file)\<rparr>))
      else Next res)"

definition sample_views :: "jsstring \<rightharpoonup> jsstring" where
  "sample_views = [lit ''/graphiql.min.css'' \<mapsto> lit ''.graphiql-container { }'']"

text \<open>
  \<open>sample_fresh\<close> agrees with \<open>req.fresh\<close> on the requests it is used at: a request
  without validators is never fresh, and a GET or HEAD whose only validator is
  \<open>If-None-Match: *\<close> is fresh against a 2xx response.
\<close>

definition sample_fresh :: "request \<Rightarrow> response \<Rightarrow> bool" where
  "sample_fresh req res =
     ((req_method req = GET \<or> req_method req = HEAD) \<and>
      ((200 \<le> status res \<and> status res < 300) \<or> status res = 304) \<and>
      req_headers req (lit ''if-none-match'') = Some (lit ''*'') \<and>
      req_headers req (lit ''if-modified-since'') = None \<and>
      req_headers req (lit ''cache-control'') = None)"

text \<open>
  Placeholders for the parts that no request below reaches or whose value no statement
  depends on. The requests below are for \<open>/graphiql\<close> and for a static file, so the
  layer mounted at \<open>/graphql\<close> never runs and the final handler is never asked; the
  helpers of \<open>res.send\<close> return fixed strings.
\<close>

definition stub_createHandler :: "gql_schema \<Rightarrow> middleware" where
  "stub_createHandler sch req res = NextErr (Thrown (lit ''no GraphQL handler'')) res"

definition stub_final :: "request \<Rightarrow> response \<Rightarrow> js_exception option \<Rightarrow> response" where
  "stub_final req res err =
     res\<lparr>status := (case err of None \<Rightarrow> 404 | Some exn \<Rightarrow> 500), body := []\<rparr>"

definition sample_env :: env where
  "sample_env =
     \<lparr>lib_isEmail = at_sign_checker,
      schema_text = lit ''type Query { validateEmail(email: String!): String! }'',
      lib_static = static_files sample_views,
      lib_createHandler = stub_createHandler,
      lib_setCharset = (\<lambda>t. t),
      lib_contentLength = (\<lambda>c. lit ''1042''),
      lib_etag = (\<lambda>c. lit ''W/\"412-0\"''),
      lib_fresh = sample_fresh,
      lib_final = stub_final\<rparr>"

definition get_request :: "jsstring \<Rightarrow> (jsstring \<rightharpoonup> jsstring) \<Rightarrow> request" where
  "get_request p hs =
     \<lparr>req_method = GET, path = p, query = [], req_headers = hs, req_body = []\<rparr>"

section \<open>Properties of the resolver\<close>

text \<open>
  C1: for every string \<open>e\<close>, the resolver returns exactly \<open>The email '<e>' is valid.\<close> when
  the checker returns true on \<open>e\<close>, and exactly \<open>The email '<e>' is invalid.\<close> when it
  returns false. Both source files are covered.
\<close>

theorem validateEmail_message:
  "(isEmail e = Inr True \<longrightarrow>
      validateEmail isEmail parent \<lparr>email = e\<rparr>
        = Inr (lit ''The email '' @ [0x27] @ e @ [0x27] @ lit '' is valid.'') \<and>
      validateEmail_part000 isEmail parent \<lparr>email = e\<rparr>
        = Inr (lit ''The email '' @ [0x27] @ e @ [0x27] @ lit '' is valid.'')) \<and>
   (isEmail e = Inr False \<longrightarrow>
      validateEmail isEmail parent \<lparr>email = e\<rparr>
        = Inr (lit ''The email '' @ [0x27] @ e @ [0x27] @ lit '' is invalid.'') \<and>
      validateEmail_part000 isEmail parent \<lparr>email = e\<rparr>
        = Inr (lit ''The email '' @ [0x27] @ e @ [0x27] @ lit '' is invalid.''))"
  by (simp add: validateEmail_def validateEmail_part000_def)

theorem validateEmail_message_witness:
  "validateEmail at_sign_checker () \<lparr>email = lit ''a@b.com''\<rparr>
     = Inr (lit ''The email 'a@b.com' is valid.'') \<and>
   validateEmail_part000 at_sign_checker () \<lparr>email = lit ''a@b.com''\<rparr>
     = Inr (lit ''The email 'a@b.com' is valid.'') \<and>
   validateEmail at_sign_checker () \<lparr>email = lit ''not-an-email''\<rparr>
     = Inr (lit ''The email 'not-an-email' is invalid.'') \<and>
   validateEmail_part000 at_sign_checker () \<lparr>email = lit ''not-an-email''\<rparr>
     = Inr (lit ''The email 'not-an-email' is invalid.'')"
  using validateEmail_message [of at_sign_checker "lit ''a@b.com''" "()"]
        validateEmail_message [of at_sign_checker "lit ''not-an-email''" "()"]
  by (simp add: lit_def at_sign_checker_def)

text \<open>
  C9: the resolver of \<open>server.js\<close> and the resolver of \<open>unnamed/part_000\<close> return the
  same result for every checker and every input.
\<close>

theorem validateEmail_files_agree:
  "validateEmail isEmail parent args = validateEmail_part000 isEmail parent args"
  by (simp add: validateEmail_def validateEmail_part000_def)

text \<open>
  C3, as the claim states it, fails. On an address whose local part is a surrogate code
  unit without its partner, the checker throws (\<open>URIError: URI malformed\<close>), and the
  exception leaves the resolver; no "invalid" message is returned.
\<close>

theorem validateEmail_lone_surrogate_throws:
  "validateEmail surrogate_checker () \<lparr>email = [0xD83D] @ lit ''@b.com''\<rparr>
     = Inl (Thrown (lit ''URI malformed'')) \<and>
   validateEmail_part000 surrogate_checker () \<lparr>email = [0xD83D] @ lit ''@b.com''\<rparr>
     = Inl (Thrown (lit ''URI malformed''))"
  by (simp add: validateEmail_def validateEmail_part000_def surrogate_checker_def lit_def)

text \<open>
  C3, amended: the resolver catches nothing. What the checker throws on an input is
  thrown by the resolver unchanged; when the checker returns false the "invalid" message
  is returned; and the resolver returns a message exactly when the checker returns a
  boolean.
\<close>

theorem validateEmail_no_catch:
  assumes "r = validateEmail isEmail parent \<or> r = validateEmail_part000 isEmail parent"
  shows "(isEmail e = Inl exn \<longrightarrow> r \<lparr>email = e\<rparr> = Inl exn) \<and>
         (isEmail e = Inr False \<longrightarrow>
            r \<lparr>email = e\<rparr>
              = Inr (lit ''The email '' @ [0x27] @ e @ [0x27] @ lit '' is invalid.'')) \<and>
         ((\<exists>m. r \<lparr>email = e\<rparr> = Inr m) \<longleftrightarrow> (\<exists>ok. isEmail e = Inr ok))"
  using assms
  by (auto simp: validateEmail_def validateEmail_part000_def split: sum.splits)

theorem validateEmail_no_catch_witness:
  "surrogate_checker ([0xD83D] @ lit ''@example.org'') = Inl (Thrown (lit ''URI malformed'')) \<and>
   validateEmail surrogate_checker () \<lparr>email = [0xD83D] @ lit ''@example.org''\<rparr>
     = Inl (Thrown (lit ''URI malformed'')) \<and>
   surrogate_checker (lit ''x'') = Inr False \<and>
   validateEmail_part000 surrogate_checker () \<lparr>email = lit ''x''\<rparr>
     = Inr (lit ''The email 'x' is invalid.'')"
proof -
  have thrown: "surrogate_checker ([0xD83D] @ lit ''@example.org'')
                  = Inl (Thrown (lit ''URI malformed''))"
    by (simp add: surrogate_checker_def lit_def)
  have rejected: "surrogate_checker (lit ''x'') = Inr False"
    by (simp add: surrogate_checker_def lit_def)
  from thrown
    validateEmail_no_catch [of "validateEmail surrogate_checker ()" surrogate_checker "()"
      "[0xD83D] @ lit ''@example.org''" "Thrown (lit ''URI malformed'')"]
  have first: "validateEmail surrogate_checker () \<lparr>email = [0xD83D] @ lit ''@example.org''\<rparr>
                 = Inl (Thrown (lit ''URI malformed''))"
    by simp
  from rejected
    validateEmail_no_catch [of "validateEmail_part000 surrogate_checker ()" surrogate_checker
      "()" "lit ''x''"]
  have second: "validateEmail_part000 surrogate_checker () \<lparr>email = lit ''x''\<rparr>
                  = Inr (lit ''The email 'x' is invalid.'')"
    by (simp add: lit_def)
  from thrown first rejected second show ?thesis
    by simp
qed

text \<open>
  Two facts about the resolver that part of C4 asks for. The checker is consulted at the
  string of the argument object and nowhere else: two checkers that agree on that string
  give the same result. And a returned message is the fixed opening, the input as it
  came, and one of the two fixed endings.
\<close>

lemma validateEmail_checker_sees_raw_input:
  assumes "isEmail (email args) = isEmail' (email args)"
  shows "validateEmail isEmail parent args = validateEmail isEmail' parent args"
    and "validateEmail_part000 isEmail parent args = validateEmail_part000 isEmail' parent args"
  using assms by (simp_all add: validateEmail_def validateEmail_part000_def)

lemma validateEmail_message_verbatim:
  assumes "validateEmail isEmail parent args = Inr m
           \<or> validateEmail_part000 isEmail parent args = Inr m"
  shows "m = lit ''The email '' @ [0x27] @ email args @ [0x27] @ lit '' is valid.'' \<or>
         m = lit ''The email '' @ [0x27] @ email args @ [0x27] @ lit '' is invalid.''"
  using assms
  by (auto simp: validateEmail_def validateEmail_part000_def split: sum.splits if_splits)

text \<open>The two endings cannot be mistaken for one another, whatever precedes them.\<close>

lemma valid_ending:
  "suffix ([0x27] @ lit '' is valid.'') (pre @ [0x27] @ lit '' is valid.'')"
  "\<not> suffix ([0x27] @ lit '' is invalid.'') (pre @ [0x27] @ lit '' is valid.'')"
  by (simp_all add: suffix_to_prefix lit_def)

lemma invalid_ending:
  "suffix ([0x27] @ lit '' is invalid.'') (pre @ [0x27] @ lit '' is invalid.'')"
  "\<not> suffix ([0x27] @ lit '' is valid.'') (pre @ [0x27] @ lit '' is invalid.'')"
  by (simp_all add: suffix_to_prefix lit_def)

text \<open>
  C10: whenever the checker gives a verdict, the message returned ends with
  \<open>' is valid.\<close> if and only if the checker accepted the input, and with
  \<open>' is invalid.\<close> if and only if it rejected it, whatever the input contains.
\<close>

theorem validateEmail_verdict_from_ending:
  assumes "r = validateEmail isEmail parent \<or> r = validateEmail_part000 isEmail parent"
    and "isEmail e = Inr ok"
  shows "\<exists>m. r \<lparr>email = e\<rparr> = Inr m \<and>
             (suffix ([0x27] @ lit '' is valid.'') m \<longleftrightarrow> ok) \<and>
             (suffix ([0x27] @ lit '' is invalid.'') m \<longleftrightarrow> \<not> ok)"
proof -
  let ?pre = "lit ''The email '' @ [0x27] @ e"
  have msg: "r \<lparr>email = e\<rparr>
               = Inr (if ok then ?pre @ [0x27] @ lit '' is valid.''
                      else ?pre @ [0x27] @ lit '' is invalid.'')"
    using assms by (auto simp: validateEmail_def validateEmail_part000_def)
  show ?thesis
  proof (cases ok)
    case True
    with msg valid_ending [of ?pre] show ?thesis by simp
  next
    case False
    with msg invalid_ending [of ?pre] show ?thesis by simp
  qed
qed

theorem validateEmail_verdict_from_ending_witness:
  "at_sign_checker (lit ''x' is valid.'') = Inr False \<and>
   (\<exists>m. validateEmail at_sign_checker () \<lparr>email = lit ''x' is valid.''\<rparr> = Inr m \<and>
        \<not> suffix ([0x27] @ lit '' is valid.'') m \<and>
        suffix ([0x27] @ lit '' is invalid.'') m)"
proof -
  have rejected: "at_sign_checker (lit ''x' is valid.'') = Inr False"
    by (simp add: at_sign_checker_def lit_def)
  from validateEmail_verdict_from_ending
         [of "validateEmail at_sign_checker ()" at_sign_checker "()", OF _ rejected]
  have "\<exists>m. validateEmail at_sign_checker () \<lparr>email = lit ''x' is valid.''\<rparr> = Inr m \<and>
            (suffix ([0x27] @ lit '' is valid.'') m \<longleftrightarrow> False) \<and>
            (suffix ([0x27] @ lit '' is invalid.'') m \<longleftrightarrow> \<not> False)"
    by simp
  with rejected show ?thesis by simp
qed

text \<open>
  The resolver has no effect of its own: the state after a call is the state the checker
  left. When the checker neither reads nor changes the state, a call is the resolver of
  the source applied to the argument, in the state as it was.
\<close>

lemma validateEmail_call_state:
  "snd (validateEmail_call isEmail st args) = snd (isEmail st (email args))"
  by (simp add: validateEmail_call_def split_beta)


text \<open>
  That the checker is free of state is needed: a checker that flips a flag shows through
  the resolver, and two calls with the same input return different messages.
\<close>

lemma flipping_checker_shows_through:
  "fst (resolver_calls flipping_checker True
          [\<lparr>email = lit ''a@b.com''\<rparr>, \<lparr>email = lit ''a@b.com''\<rparr>])
     = [Inr (lit ''The email 'a@b.com' is valid.''),
        Inr (lit ''The email 'a@b.com' is invalid.'')]"
  by (simp add: validateEmail_call_def flipping_checker_def lit_def)



section \<open>Properties of the server\<close>

text \<open>The stacks that the two files build, in registration order.\<close>

lemma server_js_layers:
  "server_js e =
     [Use (lib_static e),
      UseAt (lit ''/graphql'') (lib_createHandler e (schema e)),
      GetRoute (lit ''/graphiql'') (graphiql_route e)]"
  by (simp add: server_js_def setupGraphiQL_def setupGraphQLEndpoint_def app_get_def
      app_use_at_def app_use_def express_def)

lemma part_000_layers:
  "part_000 e =
     [Use (lib_static e),
      Use addCacheHeaders,
      UseAt (lit ''/graphql'') (lib_createHandler e (schema_part000 e)),
      GetRoute (lit ''/graphiql'') (graphiql_route e)]"
  by (simp add: part_000_def setupGraphiQL_def setupGraphQLEndpoint_def app_get_def
      app_use_at_def app_use_def express_def)

lemma graphiql_not_under_graphql:
  "path req = lit ''/graphiql'' \<Longrightarrow> \<not> layer_matches (UseAt (lit ''/graphql'') h) req"
  by (simp add: lit_def lower_def ascii_lower_def)

lemma graphiql_route_matches:
  "req_method req = GET \<Longrightarrow> path req = lit ''/graphiql'' \<Longrightarrow>
   layer_matches (GetRoute (lit ''/graphiql'') h) req"
  by simp

text \<open>The header names that \<open>res.send\<close> and the source touch are distinct keys.\<close>

lemma header_keys:
  "lower (lit ''Content-Type'') \<noteq> lower (lit ''Content-Length'')"
  "lower (lit ''Content-Type'') \<noteq> lower (lit ''ETag'')"
  "lower (lit ''Content-Type'') \<noteq> lower (lit ''Cache-Control'')"
  "lower (lit ''Cache-Control'') \<noteq> lower (lit ''Content-Length'')"
  "lower (lit ''Cache-Control'') \<noteq> lower (lit ''ETag'')"
  "lower (lit ''Cache-Control'') = lit ''cache-control''"
  "lower (lit ''Content-Type'') = lit ''content-type''"
  "lit ''x-powered-by'' \<noteq> lit ''content-type''"
  "lit ''x-powered-by'' \<noteq> lit ''cache-control''"
  by (simp_all add: lit_def lower_def ascii_lower_def)

lemma send_type_plain:
  assumes "getHeader (lit ''Content-Type'') res = None"
  shows "status (send_type e res) = status res"
    and "getHeader (lit ''Content-Type'') (send_type e res)
           = Some (lit ''text/html; charset=utf-8'')"
    and "getHeader (lit ''Cache-Control'') (send_type e res)
           = getHeader (lit ''Cache-Control'') res"
  using assms header_keys(3)
  by (simp_all add: send_type_def getHeader_def setHeader_def)

lemma send_type_status: "status (send_type e res) = status res"
  by (simp add: send_type_def setHeader_def split: option.splits)

lemma send_length_plain:
  "status (send_length e chunk res) = status res"
  "getHeader (lit ''Content-Type'') (send_length e chunk res)
     = getHeader (lit ''Content-Type'') res"
  "getHeader (lit ''Cache-Control'') (send_length e chunk res)
     = getHeader (lit ''Cache-Control'') res"
  using header_keys(1,2,4,5)
  by (simp_all add: send_length_def Let_def getHeader_def setHeader_def)

lemma send_strip_200:
  assumes "status res = 200"
  shows "send_strip res chunk = (res, chunk)"
  using assms by (simp add: send_strip_def)

lemma send_strip_304:
  assumes "status res = 304"
  shows "status (fst (send_strip res chunk)) = 304"
    and "getHeader (lit ''Content-Type'') (fst (send_strip res chunk)) = None"
    and "snd (send_strip res chunk) = []"
  using assms
  by (simp_all add: send_strip_def getHeader_def removeHeader_def)

text \<open>
  \<open>res.send\<close> on a response without Content-Type and with status 200, for a GET request
  that is not fresh against the response as \<open>res.send\<close> has built it: the status stays,
  the type is HTML, the body is the chunk, and a Cache-Control header set before is kept.
\<close>

lemma res_send_stale:
  assumes "getHeader (lit ''Content-Type'') res = None" and "status res = 200"
    and "\<not> lib_fresh e req (send_length e chunk (send_type e res))"
    and "req_method req = GET"
  shows "status (res_send e req res chunk) = 200"
    and "getHeader (lit ''Content-Type'') (res_send e req res chunk)
           = Some (lit ''text/html; charset=utf-8'')"
    and "body (res_send e req res chunk) = chunk"
    and "getHeader (lit ''Cache-Control'') (res_send e req res chunk)
           = getHeader (lit ''Cache-Control'') res"
proof -
  let ?built = "send_length e chunk (send_type e res)"
  have stale: "send_fresh e req ?built = ?built"
    using assms(3) by (simp add: send_fresh_def)
  have ok: "status ?built = 200"
    using assms(2) by (simp add: send_length_plain(1) send_type_status)
  have sent: "res_send e req res chunk = ?built\<lparr>body := chunk\<rparr>"
    using assms(4) by (simp add: res_send_def stale send_strip_200 [OF ok])
  show "status (res_send e req res chunk) = 200"
    using ok by (simp add: sent)
  have "getHeader (lit ''Content-Type'') ?built = Some (lit ''text/html; charset=utf-8'')"
    by (simp add: send_length_plain(2) send_type_plain(2) [OF assms(1)])
  then show "getHeader (lit ''Content-Type'') (res_send e req res chunk)
               = Some (lit ''text/html; charset=utf-8'')"
    by (simp add: sent getHeader_def)
  show "body (res_send e req res chunk) = chunk"
    by (simp add: sent)
  have "getHeader (lit ''Cache-Control'') ?built = getHeader (lit ''Cache-Control'') res"
    by (simp add: send_length_plain(3) send_type_plain(3) [OF assms(1)])
  then show "getHeader (lit ''Cache-Control'') (res_send e req res chunk)
               = getHeader (lit ''Cache-Control'') res"
    by (simp add: sent getHeader_def)
qed

text \<open>The same for a request that is fresh against no response at all.\<close>

lemma res_send_plain:
  assumes "getHeader (lit ''Content-Type'') res = None" and "status res = 200"
    and "\<forall>r. \<not> lib_fresh e req r" and "req_method req = GET"
  shows "status (res_send e req res chunk) = 200"
    and "getHeader (lit ''Content-Type'') (res_send e req res chunk)
           = Some (lit ''text/html; charset=utf-8'')"
    and "body (res_send e req res chunk) = chunk"
    and "getHeader (lit ''Cache-Control'') (res_send e req res chunk)
           = getHeader (lit ''Cache-Control'') res"
  using assms by (simp_all add: res_send_stale)

text \<open>
  \<open>res.send\<close> for a request that is fresh against the response as \<open>res.send\<close> has built
  it: the status becomes 304, the Content-Type is removed and no body is sent.
\<close>

lemma res_send_not_modified:
  assumes "status res = 200"
    and "lib_fresh e req (send_length e chunk (send_type e res))"
  shows "status (res_send e req res chunk) = 304"
    and "getHeader (lit ''Content-Type'') (res_send e req res chunk) = None"
    and "body (res_send e req res chunk) = []"
proof -
  let ?built = "send_length e chunk (send_type e res)"
  from assms(2) have fresh: "send_fresh e req ?built = ?built\<lparr>status := 304\<rparr>"
    by (simp add: send_fresh_def)
  have not_modified: "status (?built\<lparr>status := 304\<rparr>) = 304"
    by simp
  note stripped = send_strip_304 [OF not_modified, of chunk]
  have sent: "res_send e req res chunk
                = (fst (send_strip (?built\<lparr>status := 304\<rparr>) chunk))\<lparr>body := []\<rparr>"
    using stripped(3) by (simp add: res_send_def fresh split_beta)
  show "status (res_send e req res chunk) = 304"
    using stripped(1) by (simp add: sent)
  show "getHeader (lit ''Content-Type'') (res_send e req res chunk) = None"
    using stripped(2) by (simp add: sent getHeader_def)
  show "body (res_send e req res chunk) = []"
    by (simp add: sent)
qed

text \<open>The same for a request that is fresh against every response with status 200.\<close>

lemma res_send_fresh:
  assumes "status res = 200" and "\<forall>r. status r = 200 \<longrightarrow> lib_fresh e req r"
  shows "status (res_send e req res chunk) = 304"
    and "getHeader (lit ''Content-Type'') (res_send e req res chunk) = None"
    and "body (res_send e req res chunk) = []"
proof -
  have "status (send_length e chunk (send_type e res)) = 200"
    using assms(1) by (simp add: send_length_plain(1) send_type_status)
  with assms(2) have fresh: "lib_fresh e req (send_length e chunk (send_type e res))"
    by simp
  show "status (res_send e req res chunk) = 304"
    and "getHeader (lit ''Content-Type'') (res_send e req res chunk) = None"
    and "body (res_send e req res chunk) = []"
    by (simp_all add: res_send_not_modified [OF assms(1) fresh])
qed

lemma fresh_response_plain:
  "getHeader (lit ''Content-Type'') fresh_response = None"
  "status fresh_response = 200"
  "getHeader (lit ''Cache-Control'') fresh_response = None"
  using header_keys(6-9) by (simp_all add: fresh_response_def getHeader_def)

lemma addCacheHeaders_plain:
  "addCacheHeaders req fresh_response = Next res \<Longrightarrow>
     getHeader (lit ''Content-Type'') res = None \<and> status res = 200 \<and>
     getHeader (lit ''Cache-Control'') res
       = Some (lit ''no-store, no-cache, must-revalidate, proxy-revalidate'')"
  using header_keys(3,6-9)
  by (auto simp: addCacheHeaders_def fresh_response_def getHeader_def setHeader_def)

text \<open>
  What each application answers to \<open>GET /graphiql\<close> once the static middleware has
  passed the request on.
\<close>

lemma server_js_graphiql:
  assumes "req_method req = GET" and "path req = lit ''/graphiql''"
    and "lib_static e req fresh_response = Next fresh_response"
  shows "fst (handle e (server_js e) req) = res_send e req fresh_response graphiql_page"
  using assms graphiql_not_under_graphql [of req]
  by (simp add: handle_def server_js_layers graphiql_route_def)

lemma part_000_graphiql:
  assumes "req_method req = GET" and "path req = lit ''/graphiql''"
    and "lib_static e req fresh_response = Next fresh_response"
  shows "fst (handle e (part_000 e) req)
           = res_send e req
               (setHeader (lit ''Cache-Control'')
                  (lit ''no-store, no-cache, must-revalidate, proxy-revalidate'') fresh_response)
               graphiql_page"
  using assms graphiql_not_under_graphql [of req]
  by (simp add: handle_def part_000_layers graphiql_route_def addCacheHeaders_def)

text \<open>
  In \<open>part_000\<close> the static middleware is registered before \<open>addCacheHeaders\<close>: when it
  ends the response, the response is sent as the static middleware built it, and
  \<open>addCacheHeaders\<close> has not run.
\<close>

lemma part_000_static_reply_unchanged:
  assumes "lib_static e req fresh_response = Sent res"
  shows "fst (handle e (part_000 e) req) = res"
  using assms by (simp add: handle_def part_000_layers)

text \<open>
  In \<open>part_000\<close> the explorer page does carry the header: the request has gone through
  \<open>addCacheHeaders\<close> before it reaches the route.
\<close>

lemma part_000_graphiql_no_store:
  assumes "req_method req = GET" and "path req = lit ''/graphiql''"
    and "lib_static e req fresh_response = Next fresh_response"
    and "\<forall>r. \<not> lib_fresh e req r"
  shows "getHeader (lit ''Cache-Control'') (fst (handle e (part_000 e) req))
           = Some (lit ''no-store, no-cache, must-revalidate, proxy-revalidate'')"
proof -
  let ?res = "setHeader (lit ''Cache-Control'')
                (lit ''no-store, no-cache, must-revalidate, proxy-revalidate'') fresh_response"
  have "addCacheHeaders req fresh_response = Next ?res"
    by (simp add: addCacheHeaders_def)
  from addCacheHeaders_plain [OF this] assms(1,4) show ?thesis
    by (simp add: part_000_graphiql [OF assms(1-3)] res_send_plain(4))
qed

text \<open>
  C2 fails on the code. In \<open>part_000\<close>, a file found by the static middleware is
  answered before \<open>addCacheHeaders\<close> is reached, so it carries the static middleware's own
  Cache-Control, not the four directives; and \<open>server.js\<close> registers no such
  middleware, so its explorer page carries no Cache-Control header at all.
\<close>

theorem static_file_misses_cache_headers:
  "getHeader (lit ''Cache-Control'')
     (fst (handle sample_env (part_000 sample_env)
             (get_request (lit ''/graphiql.min.css'') Map.empty)))
     = Some (lit ''public, max-age=0'') \<and>
   getHeader (lit ''Cache-Control'')
     (fst (handle sample_env (server_js sample_env)
             (get_request (lit ''/graphiql'') Map.empty)))
     = None"
proof -
  let ?css = "get_request (lit ''/graphiql.min.css'') Map.empty"
  let ?page = "get_request (lit ''/graphiql'') Map.empty"
  let ?sent = "(setHeader (lit ''Cache-Control'') (lit ''public, max-age=0'') fresh_response)
                 \<lparr>status := 200, body := lit ''.graphiql-container { }''\<rparr>"
  have "lib_static sample_env ?css fresh_response = Sent ?sent"
    by (simp add: sample_env_def static_files_def sample_views_def get_request_def
        fresh_response_plain(3))
  then have "fst (handle sample_env (part_000 sample_env) ?css) = ?sent"
    by (rule part_000_static_reply_unchanged)
  then have css: "getHeader (lit ''Cache-Control'')
                    (fst (handle sample_env (part_000 sample_env) ?css))
                    = Some (lit ''public, max-age=0'')"
    by (simp add: getHeader_def setHeader_def)
  have pass: "lib_static sample_env ?page fresh_response = Next fresh_response"
    by (simp add: sample_env_def static_files_def sample_views_def get_request_def lit_def)
  have stale: "\<forall>r. \<not> lib_fresh sample_env ?page r"
    by (simp add: sample_env_def sample_fresh_def get_request_def)
  have "fst (handle sample_env (server_js sample_env) ?page)
          = res_send sample_env ?page fresh_response graphiql_page"
    using pass by (simp add: server_js_graphiql get_request_def)
  then have page: "getHeader (lit ''Cache-Control'')
                     (fst (handle sample_env (server_js sample_env) ?page)) = None"
    using stale
    by (simp add: res_send_plain(4) [OF fresh_response_plain(1,2)] fresh_response_plain(3)
        get_request_def)
  from css page show ?thesis by simp
qed

text \<open>
  C8, as the claim states it, fails: a conditional GET of \<open>/graphiql\<close> that Express
  judges fresh (here \<open>If-None-Match: *\<close>) is answered by \<open>res.send\<close> with 304, without
  Content-Type and without a body.
\<close>

theorem graphiql_conditional_get_304:
  "status (fst (handle sample_env (server_js sample_env)
             (get_request (lit ''/graphiql'') [lit ''if-none-match'' \<mapsto> lit ''*'']))) = 304 \<and>
   getHeader (lit ''Content-Type'')
     (fst (handle sample_env (server_js sample_env)
             (get_request (lit ''/graphiql'') [lit ''if-none-match'' \<mapsto> lit ''*'']))) = None \<and>
   body (fst (handle sample_env (server_js sample_env)
             (get_request (lit ''/graphiql'') [lit ''if-none-match'' \<mapsto> lit ''*'']))) = []"
proof -
  let ?req = "get_request (lit ''/graphiql'') [lit ''if-none-match'' \<mapsto> lit ''*'']"
  have pass: "lib_static sample_env ?req fresh_response = Next fresh_response"
    by (simp add: sample_env_def static_files_def sample_views_def get_request_def lit_def)
  have sent: "fst (handle sample_env (server_js sample_env) ?req)
                = res_send sample_env ?req fresh_response graphiql_page"
    using pass by (simp add: server_js_graphiql get_request_def)
  have fresh: "\<forall>r. status r = 200 \<longrightarrow> lib_fresh sample_env ?req r"
    by (simp add: sample_env_def sample_fresh_def get_request_def lit_def)
  show ?thesis
    unfolding sent
    by (simp add: res_send_fresh [OF fresh_response_plain(2) fresh])
qed

text \<open>
  C8, amended: a GET of \<open>/graphiql\<close> that the static middleware passes on is answered,
  by either application, through \<open>res.send\<close> with the page of the source. Unless
  Express judges the request fresh against the response \<open>res.send\<close> has built (a
  conditional request whose validators match), the answer has status 200, Content-Type
  \<open>text/html; charset=utf-8\<close> and the page as body: one constant, the same for every
  such request, which contains the element the explorer is mounted on. A fresh request
  is answered with 304, without Content-Type and without a body. Here \<open>res\<close> is the
  response object as it reaches the route: untouched in \<open>server.js\<close>, with the
  Cache-Control header in \<open>part_000\<close>.
\<close>

theorem graphiql_page_served:
  assumes "(a = server_js e \<and> res = fresh_response) \<or>
           (a = part_000 e \<and>
            res = setHeader (lit ''Cache-Control'')
                    (lit ''no-store, no-cache, must-revalidate, proxy-revalidate'')
                    fresh_response)"
    and "req_method req = GET" and "path req = lit ''/graphiql''"
    and "lib_static e req fresh_response = Next fresh_response"
  shows "(\<not> lib_fresh e req (send_length e graphiql_page (send_type e res)) \<longrightarrow>
            status (fst (handle e a req)) = 200 \<and>
            getHeader (lit ''Content-Type'') (fst (handle e a req))
              = Some (lit ''text/html; charset=utf-8'') \<and>
            body (fst (handle e a req)) = graphiql_page \<and>
            sublist mount_point (body (fst (handle e a req)))) \<and>
         (lib_fresh e req (send_length e graphiql_page (send_type e res)) \<longrightarrow>
            status (fst (handle e a req)) = 304 \<and>
            getHeader (lit ''Content-Type'') (fst (handle e a req)) = None \<and>
            body (fst (handle e a req)) = [])"
proof -
  have mount: "sublist mount_point graphiql_page"
    by (simp add: graphiql_page_def)
  have sent: "fst (handle e a req) = res_send e req res graphiql_page"
    using assms by (auto simp: server_js_graphiql part_000_graphiql)
  have "addCacheHeaders req fresh_response
          = Next (setHeader (lit ''Cache-Control'')
                    (lit ''no-store, no-cache, must-revalidate, proxy-revalidate'')
                    fresh_response)"
    by (simp add: addCacheHeaders_def)
  from addCacheHeaders_plain [OF this] assms(1)
  have plain: "getHeader (lit ''Content-Type'') res = None" and ok: "status res = 200"
    by (auto simp: fresh_response_plain)
  show ?thesis
    unfolding sent
    using mount res_send_stale [OF plain ok _ assms(2), of e graphiql_page]
      res_send_not_modified [OF ok, of e req graphiql_page]
    by auto
qed

theorem graphiql_page_served_witness:
  "status (fst (handle sample_env (part_000 sample_env)
             (get_request (lit ''/graphiql'') [lit ''if-none-match'' \<mapsto> lit ''W/\"old\"'']))) = 200 \<and>
   getHeader (lit ''Content-Type'')
     (fst (handle sample_env (part_000 sample_env)
             (get_request (lit ''/graphiql'') [lit ''if-none-match'' \<mapsto> lit ''W/\"old\"''])))
     = Some (lit ''text/html; charset=utf-8'') \<and>
   body (fst (handle sample_env (part_000 sample_env)
             (get_request (lit ''/graphiql'') [lit ''if-none-match'' \<mapsto> lit ''W/\"old\"'']))) = graphiql_page \<and>
   status (fst (handle sample_env (part_000 sample_env)
             (get_request (lit ''/graphiql'') [lit ''if-none-match'' \<mapsto> lit ''*'']))) = 304 \<and>
   body (fst (handle sample_env (part_000 sample_env)
             (get_request (lit ''/graphiql'') [lit ''if-none-match'' \<mapsto> lit ''*'']))) = []"
proof -
  let ?stale = "get_request (lit ''/graphiql'') [lit ''if-none-match'' \<mapsto> lit ''W/\"old\"'']"
  let ?fresh = "get_request (lit ''/graphiql'') [lit ''if-none-match'' \<mapsto> lit ''*'']"
  let ?res = "setHeader (lit ''Cache-Control'')
                (lit ''no-store, no-cache, must-revalidate, proxy-revalidate'') fresh_response"
  let ?built = "send_length sample_env graphiql_page (send_type sample_env ?res)"
  have get: "req_method ?stale = GET" "req_method ?fresh = GET"
    and at: "path ?stale = lit ''/graphiql''" "path ?fresh = lit ''/graphiql''"
    by (simp_all add: get_request_def)
  have pass: "lib_static sample_env ?stale fresh_response = Next fresh_response"
    "lib_static sample_env ?fresh fresh_response = Next fresh_response"
    by (simp_all add: sample_env_def static_files_def sample_views_def get_request_def lit_def)
  have ok: "status ?built = 200"
    by (simp add: send_length_plain(1) send_type_status setHeader_def fresh_response_def)
  have is_stale: "\<not> lib_fresh sample_env ?stale ?built"
    by (simp add: sample_env_def sample_fresh_def get_request_def lit_def)
  have is_fresh: "lib_fresh sample_env ?fresh ?built"
    using ok by (simp add: sample_env_def sample_fresh_def get_request_def lit_def)
  from graphiql_page_served [of "part_000 sample_env" sample_env ?res ?stale,
         OF _ get(1) at(1) pass(1)] is_stale
  have first: "status (fst (handle sample_env (part_000 sample_env) ?stale)) = 200 \<and>
               getHeader (lit ''Content-Type'') (fst (handle sample_env (part_000 sample_env) ?stale))
                 = Some (lit ''text/html; charset=utf-8'') \<and>
               body (fst (handle sample_env (part_000 sample_env) ?stale)) = graphiql_page"
    by simp
  from graphiql_page_served [of "part_000 sample_env" sample_env ?res ?fresh,
         OF _ get(2) at(2) pass(2)] is_fresh
  have second: "status (fst (handle sample_env (part_000 sample_env) ?fresh)) = 304 \<and>
                body (fst (handle sample_env (part_000 sample_env) ?fresh)) = []"
    by simp
  from first second show ?thesis by simp
qed

end
